theory Spec2Isabelle
  imports Complex_Main
begin

section \<open>The shopping cart engine (class ShoppingCart)\<close>

text \<open>
  A shallow embedding of the cart/pricing engine: the class \<^verbatim>\<open>ShoppingCart\<close> with its
  constructor, \<^verbatim>\<open>addItem\<close>, \<^verbatim>\<open>removeItem\<close>, \<^verbatim>\<open>updateQuantity\<close>, \<^verbatim>\<open>clear\<close>,
  \<^verbatim>\<open>getTotals\<close>, \<^verbatim>\<open>getItemCount\<close>, \<^verbatim>\<open>getCheckoutData\<close>, \<^verbatim>\<open>saveToStorage\<close>,
  \<^verbatim>\<open>loadFromStorage\<close>, \<^verbatim>\<open>applyDiscountCode\<close> and the storage listener of \<^verbatim>\<open>init\<close>.

  Conventions of the embedding.
  \<^item> JavaScript numbers that carry money or rates are \<^typ>\<open>real\<close>: IEEE rounding is not
    modelled, every product and sum is exact. Quantities are \<^typ>\<open>int\<close>.
  \<^item> The object's fields \<^verbatim>\<open>items\<close> and \<^verbatim>\<open>discountRate\<close>, the \<^verbatim>\<open>localStorage\<close> entry
    under \<^verbatim>\<open>STORAGE_KEY\<close> and the notifications given to \<^verbatim>\<open>showMessage\<close> are one
    record that every method takes and returns.
  \<^item> \<^verbatim>\<open>render\<close>, \<^verbatim>\<open>updateCartBadge\<close> and \<^verbatim>\<open>playAddSound\<close> only touch the DOM and the
    synthesiser; they assign no field of the object and are left out.
  \<^item> \<^verbatim>\<open>taxRate\<close> is assigned once, in the constructor, and is a constant here.
\<close>

subsection \<open>JavaScript values at the boundary\<close>

text \<open>
  A product id and a discount code arrive untyped. The values told apart are
  \<^verbatim>\<open>undefined\<close> (also a missing property), a string and an integral number.
\<close>

datatype js_value = Undefined | Str string | Num int

text \<open>Truthiness, as tested by \<^verbatim>\<open>!v\<close> and \<^verbatim>\<open>v || d\<close>.\<close>

fun truthy :: "js_value \<Rightarrow> bool" where
  "truthy Undefined = False"
| "truthy (Str s) = (s \<noteq> [])"
| "truthy (Num n) = (n \<noteq> 0)"

text \<open>\<^verbatim>\<open>typeof v !== 'string'\<close>.\<close>

fun is_string :: "js_value \<Rightarrow> bool" where
  "is_string (Str s) = True"
| "is_string v = False"

text \<open>\<^verbatim>\<open>String(v)\<close>: decimal digits for a number.\<close>

definition digit_char :: "nat \<Rightarrow> char" where
  "digit_char d = ''0123456789'' ! (d mod 10)"

fun string_of_nat :: "nat \<Rightarrow> string" where
  "string_of_nat n =
     (if n < 10 then [digit_char n] else string_of_nat (n div 10) @ [digit_char (n mod 10)])"

declare string_of_nat.simps [simp del]

fun js_String :: "js_value \<Rightarrow> string" where
  "js_String Undefined = ''undefined''"
| "js_String (Str s) = s"
| "js_String (Num n) = (if n < 0 then ''-'' @ string_of_nat (nat (- n)) else string_of_nat (nat n))"

text \<open>
  \<^verbatim>\<open>String.prototype.trim\<close> and \<^verbatim>\<open>toUpperCase\<close>, on ASCII text: the white space removed
  is space, tab, line feed, vertical tab, form feed and carriage return; the letters
  mapped are a to z.
\<close>

definition is_space :: "char \<Rightarrow> bool" where
  "is_space c \<longleftrightarrow>
     c = CHR '' '' \<or> c = CHR 0x09 \<or> c = CHR 0x0A \<or> c = CHR 0x0B \<or> c = CHR 0x0C \<or> c = CHR 0x0D"

definition trim :: "string \<Rightarrow> string" where
  "trim s = rev (dropWhile is_space (rev (dropWhile is_space s)))"

definition upper_char :: "char \<Rightarrow> char" where
  "upper_char c =
     (case map_of (zip ''abcdefghijklmnopqrstuvwxyz'' ''ABCDEFGHIJKLMNOPQRSTUVWXYZ'') c of
        None \<Rightarrow> c
      | Some u \<Rightarrow> u)"

definition toUpperCase :: "string \<Rightarrow> string" where
  "toUpperCase s = map upper_char s"

subsection \<open>Data model\<close>

text \<open>
  A line item as \<^verbatim>\<open>addItem\<close> builds it. The field \<^verbatim>\<open>id\<close> is \<open>item_id\<close> here, and
  \<^verbatim>\<open>name\<close> is optional because \<^verbatim>\<open>addItem\<close> copies \<^verbatim>\<open>product.name\<close> unchecked.
\<close>

record line_item =
  item_id :: string
  name :: "string option"
  price :: real
  quantity :: int
  imageUrl :: string
  category :: string
  discount :: real

text \<open>The product handed to \<^verbatim>\<open>addItem\<close>; a missing property is \<open>Undefined\<close> or \<open>None\<close>.\<close>

record product =
  p_id :: js_value
  p_name :: "string option"
  p_price :: real
  p_imageUrl :: "string option"
  p_category :: "string option"
  p_discount :: "real option"

text \<open>
  What \<^verbatim>\<open>JSON.parse(localStorage.getItem(STORAGE_KEY))\<close> can be: text that does not parse,
  a bare array of line items (the legacy format), an object with an \<^verbatim>\<open>items\<close> array and
  possibly a \<^verbatim>\<open>discountRate\<close>, or any other JSON value. \<^verbatim>\<open>JSON.stringify\<close> followed by
  \<^verbatim>\<open>JSON.parse\<close> is taken to return the value written.
\<close>

datatype stored_json =
  Unparseable
| JArray "line_item list"
| JEnvelope "line_item list" "real option"
| JOther

text \<open>
  The \<^verbatim>\<open>localStorage\<close> entry under \<^verbatim>\<open>STORAGE_KEY\<close> (\<open>None\<close>: no entry), and whether
  \<^verbatim>\<open>setItem\<close> succeeds (it throws when the quota is exceeded).
\<close>

record local_storage =
  entry :: "stored_json option"
  writable :: bool

datatype severity = Success | Error | Warning | Info

datatype message =
  InvalidProduct
| AddedToCart "string option"
| ItemRemoved
| CartCleared
| EnterDiscountCode
| DiscountApplied string
| InvalidDiscountCode

text \<open>
  The engine. The type of \<^verbatim>\<open>this.items\<close> is a parameter: it is a list of line items in
  every state the constructor and the methods build, and the value \<^verbatim>\<open>loadFromStorage\<close>
  returns in the state the storage listener builds.
\<close>

record 'i cart =
  items :: 'i
  discountRate :: real
  storage :: local_storage
  messages :: "(message \<times> severity) list"

type_synonym cart_state = "line_item list cart"

definition STORAGE_KEY :: string where
  "STORAGE_KEY = ''maricafe_cart''"

definition taxRate :: real where
  "taxRate = 1 / 10"

subsection \<open>Notifications and persistence\<close>

definition showMessage :: "message \<Rightarrow> severity \<Rightarrow> 'i cart \<Rightarrow> 'i cart" where
  "showMessage m t s = s\<lparr>messages := messages s @ [(m, t)]\<rparr>"

text \<open>
  \<^verbatim>\<open>saveToStorage\<close> writes the envelope \<^verbatim>\<open>{items, discountRate}\<close>; when \<^verbatim>\<open>setItem\<close> throws,
  the \<^verbatim>\<open>catch\<close> leaves the entry as it was.
\<close>

definition saveToStorage :: "cart_state \<Rightarrow> cart_state" where
  "saveToStorage s =
     (if writable (storage s)
      then s\<lparr>storage := (storage s)\<lparr>entry := Some (JEnvelope (items s) (Some (discountRate s)))\<rparr>\<rparr>
      else s)"

text \<open>
  The value \<^verbatim>\<open>loadFromStorage\<close> returns: an array, or the parsed envelope object itself.
\<close>

datatype loaded = Array "line_item list" | EnvelopeObject "line_item list" "real option"

definition loadFromStorage :: "local_storage \<Rightarrow> loaded" where
  "loadFromStorage ls =
     (case entry ls of
        None \<Rightarrow> Array []
      | Some Unparseable \<Rightarrow> Array []
      | Some (JArray xs) \<Rightarrow> Array xs
      | Some (JEnvelope xs r) \<Rightarrow> EnvelopeObject xs r
      | Some JOther \<Rightarrow> Array [])"

subsection \<open>Construction and the storage listener\<close>

text \<open>
  \<^verbatim>\<open>new ShoppingCart()\<close> over a given \<^verbatim>\<open>localStorage\<close>. \<^verbatim>\<open>stored.discountRate || 0\<close> is 0
  for a missing rate and for the rate 0.
\<close>

definition new_ShoppingCart :: "local_storage \<Rightarrow> cart_state" where
  "new_ShoppingCart ls =
     (let s0 = \<lparr>items = [], discountRate = 0, storage = ls, messages = []\<rparr>
      in case loadFromStorage ls of
           Array xs \<Rightarrow> s0\<lparr>items := xs\<rparr>
         | EnvelopeObject xs r \<Rightarrow>
             s0\<lparr>items := xs,
                discountRate := (case r of None \<Rightarrow> 0 | Some d \<Rightarrow> if d = 0 then 0 else d)\<rparr>)"

text \<open>
  The listener registered by \<^verbatim>\<open>init\<close>, run for a storage event with key \<open>key\<close>:
  \<^verbatim>\<open>if (e.key === this.STORAGE_KEY) this.items = this.loadFromStorage()\<close>. The result of
  \<^verbatim>\<open>loadFromStorage\<close> is assigned to \<^verbatim>\<open>this.items\<close> as it is, and no other field is
  assigned.
\<close>

definition storage_listener :: "string \<Rightarrow> cart_state \<Rightarrow> loaded cart" where
  "storage_listener key s =
     \<lparr>items = (if key = STORAGE_KEY then loadFromStorage (storage s) else Array (items s)),
      discountRate = discountRate s,
      storage = storage s,
      messages = messages s\<rparr>"

subsection \<open>Mutating operations\<close>

text \<open>
  \<^verbatim>\<open>this.items.find(p)\<close> followed by an assignment to a field of the item found changes
  the first item that satisfies \<open>p\<close>.
\<close>

fun update_first :: "('a \<Rightarrow> bool) \<Rightarrow> ('a \<Rightarrow> 'a) \<Rightarrow> 'a list \<Rightarrow> 'a list" where
  "update_first P f [] = []"
| "update_first P f (x # xs) = (if P x then f x # xs else x # update_first P f xs)"

text \<open>
  \<^verbatim>\<open>addItem(product, quantity)\<close>; the default \<^verbatim>\<open>quantity = 1\<close> is the call with 1. The
  test \<^verbatim>\<open>item.id === product.id\<close> is strict: a stored id, a string, equals only a string.
\<close>

definition addItem :: "product option \<Rightarrow> int \<Rightarrow> cart_state \<Rightarrow> cart_state \<times> bool" where
  "addItem product qty s =
     (case product of
        None \<Rightarrow> (showMessage InvalidProduct Error s, False)
      | Some p \<Rightarrow>
          if \<not> truthy (p_id p) then (showMessage InvalidProduct Error s, False)
          else
            let s1 =
              (case find (\<lambda>item. Str (item_id item) = p_id p) (items s) of
                 Some existingItem \<Rightarrow>
                   s\<lparr>items := update_first (\<lambda>item. Str (item_id item) = p_id p)
                                 (\<lambda>item. item\<lparr>quantity := quantity item + qty\<rparr>) (items s)\<rparr>
               | None \<Rightarrow>
                   s\<lparr>items := items s @
                      [\<lparr>item_id = js_String (p_id p),
                        name = p_name p,
                        price = p_price p,
                        quantity = qty,
                        imageUrl = (case p_imageUrl p of None \<Rightarrow> '''' | Some u \<Rightarrow> u),
                        category = (case p_category p of None \<Rightarrow> '''' | Some c \<Rightarrow> c),
                        discount = (case p_discount p of None \<Rightarrow> 0 | Some d \<Rightarrow> d)\<rparr>]\<rparr>)
            in (showMessage (AddedToCart (p_name p)) Success (saveToStorage s1), True))"

definition removeItem :: "string \<Rightarrow> cart_state \<Rightarrow> cart_state" where
  "removeItem productId s =
     showMessage ItemRemoved Info
       (saveToStorage (s\<lparr>items := filter (\<lambda>item. item_id item \<noteq> productId) (items s)\<rparr>))"

definition updateQuantity :: "string \<Rightarrow> int \<Rightarrow> cart_state \<Rightarrow> cart_state" where
  "updateQuantity productId qty s =
     (case find (\<lambda>item. item_id item = productId) (items s) of
        Some item \<Rightarrow>
          if qty \<le> 0 then removeItem productId s
          else saveToStorage
                 (s\<lparr>items := update_first (\<lambda>item. item_id item = productId)
                                (\<lambda>item. item\<lparr>quantity := qty\<rparr>) (items s)\<rparr>)
      | None \<Rightarrow> s)"

text \<open>\<^verbatim>\<open>clear()\<close>; \<open>confirmed\<close> is the answer to the \<^verbatim>\<open>confirm\<close> prompt.\<close>

definition clear :: "bool \<Rightarrow> cart_state \<Rightarrow> cart_state" where
  "clear confirmed s =
     (if confirmed then showMessage CartCleared Info (saveToStorage (s\<lparr>items := []\<rparr>)) else s)"

text \<open>
  \<^verbatim>\<open>applyDiscountCode(code)\<close>. The result is \<open>None\<close> for the bare \<^verbatim>\<open>return\<close> of the first
  guard (the call evaluates to \<^verbatim>\<open>undefined\<close>), \<open>Some b\<close> for \<^verbatim>\<open>return b\<close>.
\<close>

definition codes :: "string \<rightharpoonup> real" where
  "codes = [''SAVE10'' \<mapsto> 10 / 100, ''SAVE15'' \<mapsto> 15 / 100]"

definition applyDiscountCode :: "js_value \<Rightarrow> cart_state \<Rightarrow> cart_state \<times> bool option" where
  "applyDiscountCode code s =
     (if \<not> truthy code \<or> \<not> is_string code then (showMessage EnterDiscountCode Warning s, None)
      else
        let normalized = toUpperCase (trim (js_String code))
        in case codes normalized of
             Some r \<Rightarrow>
               if r \<noteq> 0
               then (showMessage (DiscountApplied normalized) Success
                       (saveToStorage (s\<lparr>discountRate := r\<rparr>)), Some True)
               else (showMessage InvalidDiscountCode Error s, Some False)
           | None \<Rightarrow> (showMessage InvalidDiscountCode Error s, Some False))"

subsection \<open>Totals\<close>

record totals =
  subtotal :: real
  discountAmount :: real
  discountedSubtotal :: real
  tax :: real
  total :: real
  itemCount :: int

text \<open>
  \<^verbatim>\<open>getTotals()\<close>. The \<^verbatim>\<open>forEach\<close> loop is a left fold over the pair of its two
  accumulators; \<^verbatim>\<open>item.discount || 0\<close> and \<^verbatim>\<open>this.discountRate || 0\<close> replace 0 by 0.
\<close>

definition totals_step :: "real \<times> real \<Rightarrow> line_item \<Rightarrow> real \<times> real" where
  "totals_step acc item =
     (let itemPrice = price item;
          itemDiscount = (if discount item = 0 then 0 else discount item);
          itemDiscountAmount = itemPrice * (itemDiscount / 100) * of_int (quantity item)
      in (fst acc + itemPrice * of_int (quantity item), snd acc + itemDiscountAmount))"

definition getItemCount :: "cart_state \<Rightarrow> int" where
  "getItemCount s = foldl (\<lambda>sum item. sum + quantity item) 0 (items s)"

definition getTotals :: "cart_state \<Rightarrow> totals" where
  "getTotals s =
     (let acc = foldl totals_step (0, 0) (items s);
          subtotal = fst acc;
          discountAmount = snd acc;
          afterItemDiscount = subtotal - discountAmount;
          globalDiscountAmount =
            afterItemDiscount * (if discountRate s = 0 then 0 else discountRate s);
          totalDiscount = discountAmount + globalDiscountAmount;
          discountedSubtotal = subtotal - totalDiscount;
          tax = max 0 discountedSubtotal * taxRate;
          total = discountedSubtotal + tax
      in \<lparr>subtotal = subtotal,
          discountAmount = totalDiscount,
          discountedSubtotal = discountedSubtotal,
          tax = tax,
          total = total,
          itemCount = foldl (\<lambda>sum item. sum + quantity item) 0 (items s)\<rparr>)"

text \<open>
  A method call as a step on the engine: the value returned and the engine afterwards.
  \<^verbatim>\<open>getTotals\<close> assigns no field.
\<close>

definition call_getTotals :: "cart_state \<Rightarrow> totals \<times> cart_state" where
  "call_getTotals s = (getTotals s, s)"

record checkout_item =
  ci_id :: string
  ci_name :: "string option"
  ci_price :: real
  ci_quantity :: int
  ci_discount :: real

record checkout_data =
  co_items :: "checkout_item list"
  co_subtotal :: real
  co_discount :: real
  co_tax :: real
  co_total :: real
  co_itemCount :: int

definition getCheckoutData :: "cart_state \<Rightarrow> checkout_data" where
  "getCheckoutData s =
     (let totals = getTotals s
      in \<lparr>co_items = map (\<lambda>item.
             \<lparr>ci_id = item_id item,
              ci_name = name item,
              ci_price = price item,
              ci_quantity = quantity item,
              ci_discount = (if discount item = 0 then 0 else discount item)\<rparr>) (items s),
          co_subtotal = subtotal totals,
          co_discount = discountAmount totals,
          co_tax = tax totals,
          co_total = total totals,
          co_itemCount = itemCount totals\<rparr>)"

subsection \<open>Notions used to state the properties\<close>

text \<open>
  The sums of the totals algorithm as the specification words them: the raw subtotal and
  the total of the per-item discounts.
\<close>

definition spec_subtotal :: "line_item list \<Rightarrow> real" where
  "spec_subtotal xs = (\<Sum>item\<leftarrow>xs. price item * of_int (quantity item))"

definition spec_itemDiscounts :: "line_item list \<Rightarrow> real" where
  "spec_itemDiscounts xs =
     (\<Sum>item\<leftarrow>xs. price item * (discount item / 100) * of_int (quantity item))"

text \<open>The quantity invariant of the data model: every line item has quantity at least 1.\<close>

definition quantities_positive :: "line_item list \<Rightarrow> bool" where
  "quantities_positive xs = list_all (\<lambda>item. 1 \<le> quantity item) xs"

text \<open>The calls \<^verbatim>\<open>addItem(p, q_1)\<close>, ..., \<^verbatim>\<open>addItem(p, q_n)\<close> in a row.\<close>

fun addItem_seq :: "product \<Rightarrow> int list \<Rightarrow> cart_state \<Rightarrow> cart_state" where
  "addItem_seq p [] s = s"
| "addItem_seq p (q # qs) s = addItem_seq p qs (fst (addItem (Some p) q s))"

subsection \<open>Concrete products, items and engines\<close>

definition empty_storage :: local_storage where
  "empty_storage = \<lparr>entry = None, writable = True\<rparr>"

definition chips_product :: product where
  "chips_product =
     \<lparr>p_id = Str ''p1'', p_name = Some ''Chips'', p_price = 10, p_imageUrl = None,
      p_category = None, p_discount = Some 10\<rparr>"

definition numbered_product :: product where
  "numbered_product =
     \<lparr>p_id = Num 7, p_name = Some ''Nuts'', p_price = 3, p_imageUrl = None,
      p_category = None, p_discount = None\<rparr>"

definition nameless_product :: product where
  "nameless_product =
     \<lparr>p_id = Str ''p3'', p_name = None, p_price = 1, p_imageUrl = None,
      p_category = None, p_discount = None\<rparr>"

definition chips_item :: line_item where
  "chips_item =
     \<lparr>item_id = ''p1'', name = Some ''Chips'', price = 10, quantity = 2,
      imageUrl = '''', category = '''', discount = 10\<rparr>"

definition nuts_item :: line_item where
  "nuts_item =
     \<lparr>item_id = ''p2'', name = Some ''Nuts'', price = 3, quantity = 1,
      imageUrl = '''', category = '''', discount = 0\<rparr>"

text \<open>One item priced 10.00, quantity 2, 10 percent off, under the global rate 0.10.\<close>

definition example_cart :: cart_state where
  "example_cart =
     \<lparr>items = [chips_item], discountRate = 10 / 100, storage = empty_storage, messages = []\<rparr>"

definition two_item_cart :: cart_state where
  "two_item_cart =
     \<lparr>items = [chips_item, nuts_item], discountRate = 0, storage = empty_storage,
      messages = []\<rparr>"

text \<open>
  Two tabs over one \<^verbatim>\<open>localStorage\<close>: \<open>other_tab\<close> adds an item and redeems a code;
  \<open>this_tab\<close> was constructed on the empty storage and now sees what the other wrote.
\<close>

definition other_tab :: cart_state where
  "other_tab =
     fst (applyDiscountCode (Str ''save10'')
            (fst (addItem (Some chips_product) 2 (new_ShoppingCart empty_storage))))"

definition this_tab :: cart_state where
  "this_tab = (new_ShoppingCart empty_storage)\<lparr>storage := storage other_tab\<rparr>"

section \<open>Properties\<close>

subsection \<open>Frame lemmas of the helpers\<close>

lemma items_saveToStorage [simp]: "items (saveToStorage s) = items s"
  by (simp add: saveToStorage_def)

lemma discountRate_saveToStorage [simp]: "discountRate (saveToStorage s) = discountRate s"
  by (simp add: saveToStorage_def)

lemma items_showMessage [simp]: "items (showMessage m t s) = items s"
  by (simp add: showMessage_def)

lemma discountRate_showMessage [simp]: "discountRate (showMessage m t s) = discountRate s"
  by (simp add: showMessage_def)

lemma storage_showMessage [simp]: "storage (showMessage m t s) = storage s"
  by (simp add: showMessage_def)

subsection \<open>Lists: the first match and its update\<close>

lemma find_None_filter: "find P xs = None \<longleftrightarrow> filter P xs = []"
  by (induction xs) auto

lemma update_first_absent: "find P xs = None \<Longrightarrow> update_first P f xs = xs"
  by (induction xs) (auto split: if_splits)

lemma filter_update_first:
  assumes "\<And>x. P x \<Longrightarrow> P (f x)"
  shows "filter P (update_first P f xs) = (case filter P xs of [] \<Rightarrow> [] | y # ys \<Rightarrow> f y # ys)"
  using assms by (induction xs) (auto split: list.splits)

lemma filter_other_update_first:
  assumes "\<And>x. P x \<Longrightarrow> \<not> Q x" and "\<And>x. P x \<Longrightarrow> \<not> Q (f x)"
  shows "filter Q (update_first P f xs) = filter Q xs"
  using assms by (induction xs) auto

lemma find_update_first:
  assumes "\<And>x. P x \<Longrightarrow> P (f x)"
  shows "find P (update_first P f xs) = map_option f (find P xs)"
  using assms by (induction xs) auto

lemma length_update_first [simp]: "length (update_first P f xs) = length xs"
  by (induction xs) auto

lemma map_update_first:
  assumes "\<And>x. g (f x) = g x"
  shows "map g (update_first P f xs) = map g xs"
  using assms by (induction xs) auto

lemma list_all_update_first:
  assumes "list_all Q xs" and "\<And>x. Q x \<Longrightarrow> P x \<Longrightarrow> Q (f x)"
  shows "list_all Q (update_first P f xs)"
  using assms by (induction xs) auto

lemma update_first_distinct:
  assumes "distinct (map k xs)"
  shows "update_first (\<lambda>x. k x = a) f xs = map (\<lambda>x. if k x = a then f x else x) xs"
  using assms
proof (induction xs)
  case Nil
  then show ?case by simp
next
  case (Cons x xs)
  show ?case
  proof (cases "k x = a")
    case True
    with Cons.prems have "a \<notin> k ` set xs" by simp
    then have "\<forall>y\<in>set xs. k y \<noteq> a" by blast
    then have "map (\<lambda>x. if k x = a then f x else x) xs = xs"
      by (induction xs) auto
    with True show ?thesis by simp
  next
    case False
    with Cons show ?thesis by simp
  qed
qed

subsection \<open>The item list after each operation\<close>

lemma items_addItem:
  "items (fst (addItem p q s)) =
    (case p of
       None \<Rightarrow> items s
     | Some pr \<Rightarrow>
        if \<not> truthy (p_id pr) then items s
        else if find (\<lambda>item. Str (item_id item) = p_id pr) (items s) = None
        then items s @ [\<lparr>item_id = js_String (p_id pr), name = p_name pr, price = p_price pr,
                        quantity = q,
                        imageUrl = (case p_imageUrl pr of None \<Rightarrow> '''' | Some u \<Rightarrow> u),
                        category = (case p_category pr of None \<Rightarrow> '''' | Some c \<Rightarrow> c),
                        discount = (case p_discount pr of None \<Rightarrow> 0 | Some d \<Rightarrow> d)\<rparr>]
        else update_first (\<lambda>item. Str (item_id item) = p_id pr)
               (\<lambda>item. item\<lparr>quantity := quantity item + q\<rparr>) (items s))"
  by (auto simp add: addItem_def Let_def split: option.splits)

lemma items_removeItem:
  "items (removeItem pid s) = filter (\<lambda>item. item_id item \<noteq> pid) (items s)"
  by (simp add: removeItem_def)

lemma items_updateQuantity:
  "items (updateQuantity pid q s) =
     (if q \<le> 0 then filter (\<lambda>item. item_id item \<noteq> pid) (items s)
      else update_first (\<lambda>item. item_id item = pid) (\<lambda>item. item\<lparr>quantity := q\<rparr>) (items s))"
proof (cases "find (\<lambda>item. item_id item = pid) (items s)")
  case None
  then have "filter (\<lambda>item. item_id item = pid) (items s) = []"
    by (simp add: find_None_filter)
  then have "filter (\<lambda>item. item_id item \<noteq> pid) (items s) = items s"
    by (simp add: filter_empty_conv)
  with None show ?thesis
    by (simp add: updateQuantity_def update_first_absent)
next
  case (Some it)
  then show ?thesis
    by (simp add: updateQuantity_def items_removeItem)
qed

subsection \<open>Totals\<close>

lemma foldl_totals_step:
  "foldl totals_step (a, b) xs = (a + spec_subtotal xs, b + spec_itemDiscounts xs)"
  by (induction xs arbitrary: a b)
     (simp_all add: totals_step_def spec_subtotal_def spec_itemDiscounts_def Let_def add.assoc)

lemma foldl_quantity:
  "foldl (\<lambda>sum item. sum + quantity item) a xs = a + sum_list (map quantity xs)"
  by (induction xs arbitrary: a) (simp_all add: add.assoc)

text \<open>
  Claim C1. For every cart state \<^verbatim>\<open>getTotals()\<close> returns: the subtotal, the sum of unit
  price times quantity; the discount, the per-item discounts (unit price times
  discount percent over 100 times quantity) plus the global rate applied to the subtotal
  after the per-item discounts; the discounted subtotal, subtotal minus discount; the
  tax, a tenth of the discounted subtotal clamped below at 0; the total, discounted
  subtotal plus tax; the item count, the sum of the quantities. For one item priced 10
  with quantity 2 and 10 percent off under the global rate 0.10 the totals are 20, 3.80,
  16.20, 1.62, 17.82 and 2 items.
\<close>

theorem getTotals_exact:
  "subtotal (getTotals s) = spec_subtotal (items s)
   \<and> discountAmount (getTotals s) =
       spec_itemDiscounts (items s)
       + (spec_subtotal (items s) - spec_itemDiscounts (items s)) * discountRate s
   \<and> discountedSubtotal (getTotals s) = subtotal (getTotals s) - discountAmount (getTotals s)
   \<and> tax (getTotals s) = max 0 (discountedSubtotal (getTotals s)) * (10 / 100)
   \<and> total (getTotals s) = discountedSubtotal (getTotals s) + tax (getTotals s)
   \<and> itemCount (getTotals s) = sum_list (map quantity (items s))
   \<and> getTotals example_cart =
       \<lparr>subtotal = 20, discountAmount = 380 / 100, discountedSubtotal = 1620 / 100,
        tax = 162 / 100, total = 1782 / 100, itemCount = 2\<rparr>"
proof -
  have gen: "getTotals s =
      \<lparr>subtotal = spec_subtotal (items s),
       discountAmount = spec_itemDiscounts (items s)
         + (spec_subtotal (items s) - spec_itemDiscounts (items s)) * discountRate s,
       discountedSubtotal = spec_subtotal (items s) - (spec_itemDiscounts (items s)
         + (spec_subtotal (items s) - spec_itemDiscounts (items s)) * discountRate s),
       tax = max 0 (spec_subtotal (items s) - (spec_itemDiscounts (items s)
         + (spec_subtotal (items s) - spec_itemDiscounts (items s)) * discountRate s)) * (10 / 100),
       total = spec_subtotal (items s) - (spec_itemDiscounts (items s)
         + (spec_subtotal (items s) - spec_itemDiscounts (items s)) * discountRate s)
         + max 0 (spec_subtotal (items s) - (spec_itemDiscounts (items s)
         + (spec_subtotal (items s) - spec_itemDiscounts (items s)) * discountRate s)) * (10 / 100),
       itemCount = sum_list (map quantity (items s))\<rparr>" for s
    by (simp add: getTotals_def Let_def foldl_totals_step foldl_quantity taxRate_def)
  have ex: "getTotals example_cart =
       \<lparr>subtotal = 20, discountAmount = 380 / 100, discountedSubtotal = 1620 / 100,
        tax = 162 / 100, total = 1782 / 100, itemCount = 2\<rparr>"
    by (simp add: gen example_cart_def chips_item_def spec_subtotal_def spec_itemDiscounts_def)
  have formulas:
    "subtotal (getTotals s) = spec_subtotal (items s)
     \<and> discountAmount (getTotals s) =
         spec_itemDiscounts (items s)
         + (spec_subtotal (items s) - spec_itemDiscounts (items s)) * discountRate s
     \<and> discountedSubtotal (getTotals s) = subtotal (getTotals s) - discountAmount (getTotals s)
     \<and> tax (getTotals s) = max 0 (discountedSubtotal (getTotals s)) * (10 / 100)
     \<and> total (getTotals s) = discountedSubtotal (getTotals s) + tax (getTotals s)
     \<and> itemCount (getTotals s) = sum_list (map quantity (items s))"
    by (simp add: gen)
  from formulas ex show ?thesis
    by blast
qed

text \<open>
  Claim C10. \<^verbatim>\<open>getItemCount()\<close>, the \<^verbatim>\<open>itemCount\<close> of \<^verbatim>\<open>getTotals()\<close> and the
  \<^verbatim>\<open>itemCount\<close> of \<^verbatim>\<open>getCheckoutData()\<close> are equal in every cart state: each is the sum
  of the quantities of the line items.
\<close>

theorem item_counts_agree:
  "getItemCount s = itemCount (getTotals s)
   \<and> getItemCount s = co_itemCount (getCheckoutData s)
   \<and> getItemCount s = sum_list (map quantity (items s))"
  by (simp add: getItemCount_def getTotals_def getCheckoutData_def Let_def foldl_quantity)

text \<open>
  Claim C9. \<^verbatim>\<open>getTotals()\<close> is pure: the engine after the call is the engine before it,
  a second call on the unchanged engine returns the same totals, and the totals depend
  on the item list and the global discount rate only.
\<close>

theorem getTotals_pure:
  "snd (call_getTotals s) = s
   \<and> fst (call_getTotals (snd (call_getTotals s))) = fst (call_getTotals s)
   \<and> (items s = items t \<and> discountRate s = discountRate t \<longrightarrow> getTotals s = getTotals t)"
  by (simp add: call_getTotals_def getTotals_def)

theorem getTotals_pure_witness:
  "items example_cart = items (showMessage CartCleared Info example_cart)
   \<and> discountRate example_cart = discountRate (showMessage CartCleared Info example_cart)
   \<and> example_cart \<noteq> showMessage CartCleared Info example_cart
   \<and> getTotals example_cart = getTotals (showMessage CartCleared Info example_cart)
   \<and> snd (call_getTotals example_cart) = example_cart"
  using getTotals_pure [of example_cart "showMessage CartCleared Info example_cart"]
  by (simp add: showMessage_def example_cart_def)

subsection \<open>Persistence\<close>

text \<open>
  Claim C3. When the write succeeds, saving a cart state and constructing a new engine on
  the storage saved to gives the same item list and the same global discount rate, and
  what was written is the envelope of the items and the rate; a new engine on a legacy
  bare array has that array as its items and the rate 0. Whatever \<^verbatim>\<open>saveToStorage\<close>
  leaves in the storage is the old entry or the envelope, and so it is after each
  operation of the engine.
\<close>

theorem storage_roundtrip:
  "(writable (storage s) \<longrightarrow>
      items (new_ShoppingCart (storage (saveToStorage s))) = items s
      \<and> discountRate (new_ShoppingCart (storage (saveToStorage s))) = discountRate s
      \<and> entry (storage (saveToStorage s)) = Some (JEnvelope (items s) (Some (discountRate s))))
   \<and> (entry ls = Some (JArray xs) \<longrightarrow>
        items (new_ShoppingCart ls) = xs \<and> discountRate (new_ShoppingCart ls) = 0)
   \<and> (entry (storage (saveToStorage s)) = entry (storage s)
        \<or> entry (storage (saveToStorage s)) = Some (JEnvelope (items s) (Some (discountRate s))))
   \<and> (\<forall>s'. s' = fst (addItem p q s) \<or> s' = removeItem pid s \<or> s' = updateQuantity pid q s
            \<or> s' = clear c s \<or> s' = fst (applyDiscountCode code s) \<longrightarrow>
          entry (storage s') = entry (storage s)
          \<or> entry (storage s') = Some (JEnvelope (items s') (Some (discountRate s'))))"
proof (intro conjI allI impI)
  assume "writable (storage s)"
  then show "items (new_ShoppingCart (storage (saveToStorage s))) = items s"
    and "discountRate (new_ShoppingCart (storage (saveToStorage s))) = discountRate s"
    and "entry (storage (saveToStorage s)) = Some (JEnvelope (items s) (Some (discountRate s)))"
    by (simp_all add: saveToStorage_def new_ShoppingCart_def loadFromStorage_def)
next
  assume "entry ls = Some (JArray xs)"
  then show "items (new_ShoppingCart ls) = xs" and "discountRate (new_ShoppingCart ls) = 0"
    by (simp_all add: new_ShoppingCart_def loadFromStorage_def)
next
  show "entry (storage (saveToStorage s)) = entry (storage s)
        \<or> entry (storage (saveToStorage s)) = Some (JEnvelope (items s) (Some (discountRate s)))"
    by (simp add: saveToStorage_def)
next
  fix s'
  have save: "entry (storage (saveToStorage u)) = entry (storage u)
      \<or> entry (storage (saveToStorage u)) = Some (JEnvelope (items u) (Some (discountRate u)))"
    for u
    by (simp add: saveToStorage_def)
  have add: "entry (storage (fst (addItem p q s))) = entry (storage s)
      \<or> entry (storage (fst (addItem p q s)))
         = Some (JEnvelope (items (fst (addItem p q s))) (Some (discountRate (fst (addItem p q s)))))"
    by (simp add: addItem_def Let_def saveToStorage_def split: option.splits)
  have rem: "entry (storage (removeItem pid u)) = entry (storage u)
      \<or> entry (storage (removeItem pid u))
         = Some (JEnvelope (items (removeItem pid u)) (Some (discountRate (removeItem pid u))))"
    for u
    by (simp add: removeItem_def saveToStorage_def)
  have upd: "entry (storage (updateQuantity pid q s)) = entry (storage s)
      \<or> entry (storage (updateQuantity pid q s))
         = Some (JEnvelope (items (updateQuantity pid q s))
                   (Some (discountRate (updateQuantity pid q s))))"
    by (simp add: updateQuantity_def removeItem_def saveToStorage_def split: option.splits)
  have clr: "entry (storage (clear c s)) = entry (storage s)
      \<or> entry (storage (clear c s))
         = Some (JEnvelope (items (clear c s)) (Some (discountRate (clear c s))))"
    by (simp add: clear_def saveToStorage_def)
  have app: "entry (storage (fst (applyDiscountCode code s))) = entry (storage s)
      \<or> entry (storage (fst (applyDiscountCode code s)))
         = Some (JEnvelope (items (fst (applyDiscountCode code s)))
                   (Some (discountRate (fst (applyDiscountCode code s)))))"
    by (simp add: applyDiscountCode_def Let_def saveToStorage_def split: option.splits)
  assume "s' = fst (addItem p q s) \<or> s' = removeItem pid s \<or> s' = updateQuantity pid q s
            \<or> s' = clear c s \<or> s' = fst (applyDiscountCode code s)"
  with add rem [of s] upd clr app
  show "entry (storage s') = entry (storage s)
          \<or> entry (storage s') = Some (JEnvelope (items s') (Some (discountRate s')))"
    by blast
qed

theorem storage_roundtrip_witness:
  "writable (storage example_cart)
   \<and> items (new_ShoppingCart (storage (saveToStorage example_cart))) = [chips_item]
   \<and> discountRate (new_ShoppingCart (storage (saveToStorage example_cart))) = 10 / 100
   \<and> entry \<lparr>entry = Some (JArray [chips_item]), writable = True\<rparr> = Some (JArray [chips_item])
   \<and> items (new_ShoppingCart \<lparr>entry = Some (JArray [chips_item]), writable = True\<rparr>)
       = [chips_item]
   \<and> discountRate (new_ShoppingCart \<lparr>entry = Some (JArray [chips_item]), writable = True\<rparr>) = 0
   \<and> entry (storage (removeItem ''p1'' example_cart)) = Some (JEnvelope [] (Some (10 / 100)))"
proof -
  have rem: "entry (storage (removeItem ''p1'' example_cart)) = Some (JEnvelope [] (Some (10 / 100)))"
    by (simp add: removeItem_def saveToStorage_def showMessage_def example_cart_def
        empty_storage_def chips_item_def)
  show ?thesis
    using rem storage_roundtrip [of example_cart
        "\<lparr>entry = Some (JArray [chips_item]), writable = True\<rparr>" "[chips_item]"]
    by (simp add: example_cart_def empty_storage_def)
qed

lemma other_tab_eq:
  "other_tab =
     \<lparr>items = [chips_item], discountRate = 10 / 100,
      storage = \<lparr>entry = Some (JEnvelope [chips_item] (Some (10 / 100))), writable = True\<rparr>,
      messages = [(AddedToCart (Some ''Chips''), Success), (DiscountApplied ''SAVE10'', Success)]\<rparr>"
  by (simp add: other_tab_def applyDiscountCode_def addItem_def new_ShoppingCart_def
      loadFromStorage_def empty_storage_def chips_product_def chips_item_def Let_def
      saveToStorage_def showMessage_def codes_def toUpperCase_def trim_def is_space_def
      upper_char_def)

text \<open>
  Claim C5 asks that a storage event on the cart's key reloads the engine: items and
  global discount rate as the stored value encodes them. On the envelope
  \<^verbatim>\<open>{items, discountRate}\<close> that another tab wrote, the listener assigns the whole
  envelope object to \<^verbatim>\<open>this.items\<close>, not its item array, and leaves \<^verbatim>\<open>discountRate\<close> at
  its old value 0, where the constructor on the same storage takes the array and the
  rate 0.10.
\<close>

theorem storage_listener_envelope:
  "entry (storage this_tab) = Some (JEnvelope [chips_item] (Some (10 / 100)))
   \<and> items (storage_listener STORAGE_KEY this_tab) = EnvelopeObject [chips_item] (Some (10 / 100))
   \<and> items (storage_listener STORAGE_KEY this_tab) \<noteq> Array [chips_item]
   \<and> discountRate (storage_listener STORAGE_KEY this_tab) = 0
   \<and> items (new_ShoppingCart (storage this_tab)) = [chips_item]
   \<and> discountRate (new_ShoppingCart (storage this_tab)) = 10 / 100"
  by (simp add: this_tab_def other_tab_eq storage_listener_def new_ShoppingCart_def
      loadFromStorage_def empty_storage_def)

subsection \<open>Discount codes\<close>

lemma codes_eq:
  "codes c =
     (if c = ''SAVE15'' then Some (15 / 100)
      else if c = ''SAVE10'' then Some (10 / 100) else None)"
  by (simp add: codes_def)

text \<open>
  On a non-empty string the code is trimmed, upper-cased and looked up: a match
  overwrites the rate, persists and returns true; anything else changes only the
  notifications and returns false.
\<close>

lemma applyDiscountCode_string:
  assumes "c \<noteq> []"
  shows "applyDiscountCode (Str c) s =
    (if toUpperCase (trim c) = ''SAVE10''
     then (showMessage (DiscountApplied ''SAVE10'') Success
             (saveToStorage (s\<lparr>discountRate := 10 / 100\<rparr>)), Some True)
     else if toUpperCase (trim c) = ''SAVE15''
     then (showMessage (DiscountApplied ''SAVE15'') Success
             (saveToStorage (s\<lparr>discountRate := 15 / 100\<rparr>)), Some True)
     else (showMessage InvalidDiscountCode Error s, Some False))"
  using assms by (simp add: applyDiscountCode_def codes_eq Let_def)

lemma applyDiscountCode_overwrites:
  "discountRate (fst (applyDiscountCode (Str '' save15 '') example_cart)) = 15 / 100
   \<and> snd (applyDiscountCode (Str '' save15 '') example_cart) = Some True
   \<and> applyDiscountCode (Str ''SAVE20'') example_cart
       = (showMessage InvalidDiscountCode Error example_cart, Some False)"
  by (simp add: applyDiscountCode_string toUpperCase_def trim_def is_space_def upper_char_def)

text \<open>
  Claim C4 asks that \<^verbatim>\<open>applyDiscountCode\<close> returns false on every input that matches no
  code, the empty and the non-string ones included. On the empty string, on a number and
  on \<^verbatim>\<open>undefined\<close> the first guard ends in a bare \<^verbatim>\<open>return\<close>: the state is unchanged
  but for the warning, and the call returns \<^verbatim>\<open>undefined\<close>, not false.
\<close>

theorem applyDiscountCode_empty_returns_undefined:
  "applyDiscountCode (Str '''') example_cart
     = (showMessage EnterDiscountCode Warning example_cart, None)
   \<and> applyDiscountCode (Num 10) example_cart
       = (showMessage EnterDiscountCode Warning example_cart, None)
   \<and> applyDiscountCode Undefined example_cart
       = (showMessage EnterDiscountCode Warning example_cart, None)
   \<and> snd (applyDiscountCode (Str '''') example_cart) \<noteq> Some False"
  by (simp add: applyDiscountCode_def)

theorem applyDiscountCode_empty_returns_undefined_witness:
  "\<not> truthy (Str '''')
   \<and> snd (applyDiscountCode (Str '''') example_cart) = None
   \<and> items (fst (applyDiscountCode (Str '''') example_cart)) = [chips_item]
   \<and> discountRate (fst (applyDiscountCode (Str '''') example_cart)) = 10 / 100
   \<and> storage (fst (applyDiscountCode (Str '''') example_cart)) = empty_storage"
  using applyDiscountCode_empty_returns_undefined
  by (simp add: example_cart_def)

subsection \<open>Adding items\<close>

text \<open>
  Claim C8. \<^verbatim>\<open>addItem\<close> returns false exactly when the product is missing or its id is
  missing (falsy: \<^verbatim>\<open>undefined\<close>, the empty string or 0); then the items, the global
  discount rate and the storage are unchanged and the one effect is the error
  notification. In every other case, a product without a name included, it returns true.
\<close>

theorem addItem_result:
  "(snd (addItem p q s) = False \<longleftrightarrow> (case p of None \<Rightarrow> True | Some pr \<Rightarrow> \<not> truthy (p_id pr)))
   \<and> (snd (addItem p q s) = False \<longrightarrow>
        addItem p q s = (showMessage InvalidProduct Error s, False)
        \<and> items (fst (addItem p q s)) = items s
        \<and> discountRate (fst (addItem p q s)) = discountRate s
        \<and> storage (fst (addItem p q s)) = storage s
        \<and> messages (fst (addItem p q s)) = messages s @ [(InvalidProduct, Error)])
   \<and> (snd (addItem p q s) \<noteq> False \<longrightarrow> snd (addItem p q s) = True)"
  by (simp add: addItem_def showMessage_def Let_def split: option.splits)

theorem addItem_result_witness:
  "snd (addItem (Some (chips_product\<lparr>p_id := Undefined\<rparr>)) 1 example_cart) = False
   \<and> items (fst (addItem (Some (chips_product\<lparr>p_id := Undefined\<rparr>)) 1 example_cart))
       = [chips_item]
   \<and> discountRate (fst (addItem (Some (chips_product\<lparr>p_id := Undefined\<rparr>)) 1 example_cart))
       = 10 / 100
   \<and> storage (fst (addItem (Some (chips_product\<lparr>p_id := Undefined\<rparr>)) 1 example_cart))
       = empty_storage
   \<and> snd (addItem None 1 example_cart) = False
   \<and> snd (addItem (Some nameless_product) 1 example_cart) = True"
proof -
  let ?bad = "Some (chips_product\<lparr>p_id := Undefined\<rparr>)"
  have missing: "case ?bad of None \<Rightarrow> True | Some pr \<Rightarrow> \<not> truthy (p_id pr)"
    by simp
  with addItem_result [of ?bad 1 example_cart]
  have refused: "snd (addItem ?bad 1 example_cart) = False"
    by blast
  with addItem_result [of ?bad 1 example_cart]
  have "items (fst (addItem ?bad 1 example_cart)) = items example_cart"
    and "discountRate (fst (addItem ?bad 1 example_cart)) = discountRate example_cart"
    and "storage (fst (addItem ?bad 1 example_cart)) = storage example_cart"
    by blast+
  then have unchanged: "items (fst (addItem ?bad 1 example_cart)) = [chips_item]"
    "discountRate (fst (addItem ?bad 1 example_cart)) = 10 / 100"
    "storage (fst (addItem ?bad 1 example_cart)) = empty_storage"
    by (simp_all add: example_cart_def)
  have no_product: "snd (addItem None 1 example_cart) = False"
    using addItem_result [of None 1 example_cart] by simp
  have "\<not> (case Some nameless_product of None \<Rightarrow> True | Some pr \<Rightarrow> \<not> truthy (p_id pr))"
    by (simp add: nameless_product_def)
  with addItem_result [of "Some nameless_product" 1 example_cart]
  have accepted: "snd (addItem (Some nameless_product) 1 example_cart) = True"
    by blast
  from refused unchanged no_product accepted show ?thesis
    by blast
qed

text \<open>
  With a non-empty string as product id, \<^verbatim>\<open>addItem\<close> appends when no item has the id and
  adds to the first such item otherwise.
\<close>

lemma items_addItem_string:
  assumes "sid \<noteq> []" and "p_id p = Str sid"
  shows "items (fst (addItem (Some p) q s)) =
    (if filter (\<lambda>item. item_id item = sid) (items s) = []
     then items s @ [\<lparr>item_id = sid, name = p_name p, price = p_price p, quantity = q,
                      imageUrl = (case p_imageUrl p of None \<Rightarrow> '''' | Some u \<Rightarrow> u),
                      category = (case p_category p of None \<Rightarrow> '''' | Some c \<Rightarrow> c),
                      discount = (case p_discount p of None \<Rightarrow> 0 | Some d \<Rightarrow> d)\<rparr>]
     else update_first (\<lambda>item. item_id item = sid)
            (\<lambda>item. item\<lparr>quantity := quantity item + q\<rparr>) (items s))"
  using assms
  by (auto simp add: addItem_def Let_def find_None_filter [symmetric] split: option.splits)

lemma addItem_seq_present:
  assumes "sid \<noteq> []" and "p_id p = Str sid"
    and "filter (\<lambda>item. item_id item = sid) (items s) = [it]"
  shows "filter (\<lambda>item. item_id item = sid) (items (addItem_seq p qs s))
         = [it\<lparr>quantity := quantity it + sum_list qs\<rparr>]"
  using assms(3)
proof (induction qs arbitrary: s it)
  case Nil
  then show ?case by simp
next
  case (Cons q qs)
  have "filter (\<lambda>item. item_id item = sid) (items (fst (addItem (Some p) q s)))
        = [it\<lparr>quantity := quantity it + q\<rparr>]"
    using Cons.prems by (simp add: items_addItem_string [OF assms(1,2)] filter_update_first)
  from Cons.IH [OF this] show ?case
    by (simp add: add.assoc)
qed

text \<open>
  For a product whose id is a non-empty string, the calls \<^verbatim>\<open>addItem(p, q_1)\<close>, ...,
  \<^verbatim>\<open>addItem(p, q_n)\<close>, \<open>n \<ge> 1\<close>, on a cart without the id leave exactly one item with
  the id, of quantity \<open>q_1 + ... + q_n\<close>, and each call keeps the ids distinct.
\<close>

lemma addItem_string_id_merges:
  assumes "sid \<noteq> []" and "p_id p = Str sid"
    and "filter (\<lambda>item. item_id item = sid) (items s) = []"
    and "qs \<noteq> []"
  shows "\<exists>it. filter (\<lambda>item. item_id item = sid) (items (addItem_seq p qs s)) = [it]
              \<and> quantity it = sum_list qs"
proof (cases qs)
  case Nil
  with assms(4) show ?thesis by simp
next
  case (Cons q qs')
  have "filter (\<lambda>item. item_id item = sid) (items (fst (addItem (Some p) q s)))
        = [\<lparr>item_id = sid, name = p_name p, price = p_price p, quantity = q,
            imageUrl = (case p_imageUrl p of None \<Rightarrow> '''' | Some u \<Rightarrow> u),
            category = (case p_category p of None \<Rightarrow> '''' | Some c \<Rightarrow> c),
            discount = (case p_discount p of None \<Rightarrow> 0 | Some d \<Rightarrow> d)\<rparr>]"
    using assms(3) by (simp add: items_addItem_string [OF assms(1,2)])
  from addItem_seq_present [OF assms(1,2) this, of qs'] Cons show ?thesis
    by simp
qed

lemma addItem_string_id_distinct:
  assumes "sid \<noteq> []" and "p_id p = Str sid" and "distinct (map item_id (items s))"
  shows "distinct (map item_id (items (fst (addItem (Some p) q s))))"
proof (cases "filter (\<lambda>item. item_id item = sid) (items s) = []")
  case True
  then have "sid \<notin> set (map item_id (items s))"
    by (auto simp add: filter_empty_conv)
  with True assms(3) show ?thesis
    by (simp add: items_addItem_string [OF assms(1,2)])
next
  case False
  with assms(3) show ?thesis
    by (simp add: items_addItem_string [OF assms(1,2)] map_update_first)
qed

text \<open>
  Claim C2 asks that any number of \<^verbatim>\<open>addItem\<close> calls with one product leave exactly one
  line item with its id, whatever the id present. For the product with the numeric id 7,
  two calls with quantity 1 on the empty cart leave two line items with id \<^verbatim>\<open>"7"\<close>, each
  of quantity 1: the item is stored under \<^verbatim>\<open>String(product.id)\<close> and looked up by
  \<^verbatim>\<open>item.id === product.id\<close>, which a string and a number never satisfy.
\<close>

theorem addItem_numeric_id_duplicates:
  "map item_id (items (addItem_seq numbered_product [1, 1] (new_ShoppingCart empty_storage)))
     = [''7'', ''7'']
   \<and> map quantity (items (addItem_seq numbered_product [1, 1] (new_ShoppingCart empty_storage)))
       = [1, 1]
   \<and> truthy (p_id numbered_product)
   \<and> items (new_ShoppingCart empty_storage) = []"
  by (simp add: addItem_def new_ShoppingCart_def loadFromStorage_def empty_storage_def
      numbered_product_def Let_def string_of_nat.simps digit_char_def)

subsection \<open>Quantities\<close>

text \<open>
  Claim C6 as stated, with any integer quantity for \<^verbatim>\<open>addItem\<close>, fails: \<^verbatim>\<open>addItem\<close> with
  quantity 0 on the empty cart stores an item of quantity 0, and \<^verbatim>\<open>addItem\<close> with
  quantity -2 on an item of quantity 2 leaves it at 0. Both carts satisfy the invariant
  before the call.
\<close>

theorem zero_quantity_stored:
  "\<not> quantities_positive
        (items (fst (addItem (Some chips_product) 0 (new_ShoppingCart empty_storage))))
   \<and> quantities_positive (items (new_ShoppingCart empty_storage))
   \<and> map quantity (items (fst (addItem (Some chips_product) (- 2) example_cart))) = [0]
   \<and> quantities_positive (items example_cart)"
  by (simp add: items_addItem quantities_positive_def chips_product_def new_ShoppingCart_def
      loadFromStorage_def empty_storage_def example_cart_def chips_item_def)

text \<open>
  Claim C6, amended. If every line item has quantity at least 1, then so it is after
  \<^verbatim>\<open>addItem\<close> with a quantity of at least 1, after \<^verbatim>\<open>updateQuantity\<close> with any integer
  (zero and negative ones remove the item), after \<^verbatim>\<open>removeItem\<close> and after \<^verbatim>\<open>clear\<close>.
\<close>

theorem quantities_stay_positive:
  assumes "quantities_positive (items s)"
  shows "(1 \<le> q \<longrightarrow> quantities_positive (items (fst (addItem p q s))))
         \<and> quantities_positive (items (updateQuantity pid n s))
         \<and> quantities_positive (items (removeItem pid s))
         \<and> quantities_positive (items (clear c s))"
proof (intro conjI impI)
  assume q: "1 \<le> q"
  have "list_all (\<lambda>item. 1 \<le> quantity item)
          (update_first P (\<lambda>item. item\<lparr>quantity := quantity item + q\<rparr>) (items s))" for P
    by (rule list_all_update_first) (use assms q in \<open>simp_all add: quantities_positive_def\<close>)
  with assms q show "quantities_positive (items (fst (addItem p q s)))"
    by (simp add: items_addItem quantities_positive_def split: option.splits)
next
  have "list_all (\<lambda>item. 1 \<le> quantity item)
          (update_first P (\<lambda>item. item\<lparr>quantity := n\<rparr>) (items s))" if "\<not> n \<le> 0" for P
    by (rule list_all_update_first) (use assms that in \<open>simp_all add: quantities_positive_def\<close>)
  with assms show "quantities_positive (items (updateQuantity pid n s))"
    by (simp add: items_updateQuantity quantities_positive_def list_all_iff)
next
  from assms show "quantities_positive (items (removeItem pid s))"
    by (simp add: items_removeItem quantities_positive_def list_all_iff)
next
  from assms show "quantities_positive (items (clear c s))"
    by (simp add: clear_def quantities_positive_def)
qed

theorem quantities_stay_positive_witness:
  "quantities_positive (items example_cart)
   \<and> map quantity (items (fst (addItem (Some chips_product) 3 example_cart))) = [5]
   \<and> quantities_positive (items (fst (addItem (Some chips_product) 3 example_cart)))
   \<and> items (updateQuantity ''p1'' (- 3) example_cart) = []
   \<and> quantities_positive (items (updateQuantity ''p1'' (- 3) example_cart))
   \<and> quantities_positive (items (removeItem ''p1'' example_cart))
   \<and> quantities_positive (items (clear True example_cart))"
proof -
  have h: "quantities_positive (items example_cart)"
    by (simp add: quantities_positive_def example_cart_def chips_item_def)
  have "map quantity (items (fst (addItem (Some chips_product) 3 example_cart))) = [5]"
    by (simp add: items_addItem chips_product_def example_cart_def chips_item_def)
  moreover have "items (updateQuantity ''p1'' (- 3) example_cart) = []"
    by (simp add: items_updateQuantity example_cart_def chips_item_def)
  ultimately show ?thesis
    using h quantities_stay_positive [OF h, of 3 "Some chips_product" "''p1''" "- 3" True]
    by simp
qed

text \<open>
  Claim C7. \<^verbatim>\<open>updateQuantity(productId, q)\<close> with \<open>q \<le> 0\<close> leaves the item list
  \<^verbatim>\<open>removeItem(productId)\<close> leaves, with no item of that id (and is the very call of
  \<^verbatim>\<open>removeItem\<close> when the item is there); with \<open>q \<ge> 1\<close> the item found has its quantity
  set to \<open>q\<close> and nothing else changes (with at most one item per id: each item of that
  id has quantity \<open>q\<close>, every other item is as before); when no item has the id the
  engine is unchanged. \<^verbatim>\<open>removeItem\<close> of an id not in the cart leaves the items and the
  global discount rate as they are; the model has no failing branch, as the source has
  no \<^verbatim>\<open>throw\<close>.
\<close>

theorem updateQuantity_removeItem_effect:
  "(q \<le> 0 \<longrightarrow>
      items (updateQuantity pid q s) = items (removeItem pid s)
      \<and> pid \<notin> set (map item_id (items (updateQuantity pid q s)))
      \<and> filter (\<lambda>item. item_id item \<noteq> pid) (items (updateQuantity pid q s))
          = filter (\<lambda>item. item_id item \<noteq> pid) (items s)
      \<and> discountRate (updateQuantity pid q s) = discountRate s
      \<and> (pid \<in> set (map item_id (items s)) \<longrightarrow> updateQuantity pid q s = removeItem pid s))
   \<and> (1 \<le> q' \<and> find (\<lambda>item. item_id item = pid') (items s') = Some it \<longrightarrow>
        find (\<lambda>item. item_id item = pid') (items (updateQuantity pid' q' s'))
          = Some (it\<lparr>quantity := q'\<rparr>)
        \<and> length (items (updateQuantity pid' q' s')) = length (items s')
        \<and> filter (\<lambda>item. item_id item \<noteq> pid') (items (updateQuantity pid' q' s'))
            = filter (\<lambda>item. item_id item \<noteq> pid') (items s')
        \<and> (distinct (map item_id (items s')) \<longrightarrow>
             items (updateQuantity pid' q' s')
               = map (\<lambda>item. if item_id item = pid' then item\<lparr>quantity := q'\<rparr> else item)
                   (items s'))
        \<and> discountRate (updateQuantity pid' q' s') = discountRate s')
   \<and> (pid'' \<notin> set (map item_id (items s'')) \<longrightarrow>
        updateQuantity pid'' q'' s'' = s''
        \<and> items (removeItem pid'' s'') = items s''
        \<and> discountRate (removeItem pid'' s'') = discountRate s'')"
proof (intro conjI impI)
  assume "q \<le> 0"
  then show "items (updateQuantity pid q s) = items (removeItem pid s)"
    by (simp add: items_updateQuantity items_removeItem)
  from \<open>q \<le> 0\<close> show "pid \<notin> set (map item_id (items (updateQuantity pid q s)))"
    by (auto simp add: items_updateQuantity)
  from \<open>q \<le> 0\<close>
  show "filter (\<lambda>item. item_id item \<noteq> pid) (items (updateQuantity pid q s))
          = filter (\<lambda>item. item_id item \<noteq> pid) (items s)"
    by (simp add: items_updateQuantity)
  show "discountRate (updateQuantity pid q s) = discountRate s"
    by (simp add: updateQuantity_def removeItem_def split: option.splits)
  assume "pid \<in> set (map item_id (items s))"
  then have "filter (\<lambda>item. item_id item = pid) (items s) \<noteq> []"
    by (auto simp add: filter_empty_conv)
  then have "find (\<lambda>item. item_id item = pid) (items s) \<noteq> None"
    by (simp add: find_None_filter)
  with \<open>q \<le> 0\<close> show "updateQuantity pid q s = removeItem pid s"
    by (auto simp add: updateQuantity_def)
next
  assume a: "1 \<le> q' \<and> find (\<lambda>item. item_id item = pid') (items s') = Some it"
  then have q': "\<not> q' \<le> 0" by simp
  from a q'
  show "find (\<lambda>item. item_id item = pid') (items (updateQuantity pid' q' s'))
          = Some (it\<lparr>quantity := q'\<rparr>)"
    by (simp add: items_updateQuantity find_update_first)
  from q' show "length (items (updateQuantity pid' q' s')) = length (items s')"
    by (simp add: items_updateQuantity)
  from q'
  show "filter (\<lambda>item. item_id item \<noteq> pid') (items (updateQuantity pid' q' s'))
            = filter (\<lambda>item. item_id item \<noteq> pid') (items s')"
    by (simp add: items_updateQuantity filter_other_update_first)
  show "discountRate (updateQuantity pid' q' s') = discountRate s'"
    by (simp add: updateQuantity_def removeItem_def split: option.splits)
  assume "distinct (map item_id (items s'))"
  with q'
  show "items (updateQuantity pid' q' s')
          = map (\<lambda>item. if item_id item = pid' then item\<lparr>quantity := q'\<rparr> else item) (items s')"
    by (simp add: items_updateQuantity update_first_distinct)
next
  assume absent: "pid'' \<notin> set (map item_id (items s''))"
  then have f: "filter (\<lambda>item. item_id item = pid'') (items s'') = []"
    by (auto simp add: filter_empty_conv)
  then show "updateQuantity pid'' q'' s'' = s''"
    by (simp add: updateQuantity_def find_None_filter [symmetric])
  from absent have "filter (\<lambda>item. item_id item \<noteq> pid'') (items s'') = items s''"
    by (auto simp add: filter_id_conv)
  then show "items (removeItem pid'' s'') = items s''"
    by (simp add: items_removeItem)
  show "discountRate (removeItem pid'' s'') = discountRate s''"
    by (simp add: removeItem_def)
qed

theorem updateQuantity_removeItem_effect_witness:
  "items (updateQuantity ''p1'' 0 two_item_cart) = [nuts_item]
   \<and> items (updateQuantity ''p1'' (- 3) two_item_cart) = [nuts_item]
   \<and> updateQuantity ''p1'' (- 3) two_item_cart = removeItem ''p1'' two_item_cart
   \<and> find (\<lambda>item. item_id item = ''p1'') (items two_item_cart) = Some chips_item
   \<and> items (updateQuantity ''p1'' 5 two_item_cart) = [chips_item\<lparr>quantity := 5\<rparr>, nuts_item]
   \<and> ''p9'' \<notin> set (map item_id (items two_item_cart))
   \<and> updateQuantity ''p9'' 4 two_item_cart = two_item_cart
   \<and> items (removeItem ''p9'' two_item_cart) = [chips_item, nuts_item]"
proof -
  have ids: "map item_id (items two_item_cart) = [''p1'', ''p2'']"
    by (simp add: two_item_cart_def chips_item_def nuts_item_def)
  have found: "find (\<lambda>item. item_id item = ''p1'') (items two_item_cart) = Some chips_item"
    by (simp add: two_item_cart_def chips_item_def)
  have removed: "items (removeItem ''p1'' two_item_cart) = [nuts_item]"
    by (simp add: items_removeItem two_item_cart_def chips_item_def nuts_item_def)
  have mapped: "map (\<lambda>item. if item_id item = ''p1'' then item\<lparr>quantity := 5\<rparr> else item)
                  (items two_item_cart) = [chips_item\<lparr>quantity := 5\<rparr>, nuts_item]"
    by (simp add: two_item_cart_def chips_item_def nuts_item_def)
  have all_items: "items two_item_cart = [chips_item, nuts_item]"
    by (simp add: two_item_cart_def)
  note zero = updateQuantity_removeItem_effect
    [of 0 "''p1''" two_item_cart 5 "''p1''" two_item_cart chips_item "''p9''" two_item_cart 4]
  note negative = updateQuantity_removeItem_effect
    [of "- 3" "''p1''" two_item_cart 5 "''p1''" two_item_cart chips_item "''p9''" two_item_cart 4]
  from zero removed have a: "items (updateQuantity ''p1'' 0 two_item_cart) = [nuts_item]"
    by simp
  from negative removed ids
  have b: "items (updateQuantity ''p1'' (- 3) two_item_cart) = [nuts_item]"
    and c: "updateQuantity ''p1'' (- 3) two_item_cart = removeItem ''p1'' two_item_cart"
    by simp_all
  from zero found ids mapped
  have d: "items (updateQuantity ''p1'' 5 two_item_cart) = [chips_item\<lparr>quantity := 5\<rparr>, nuts_item]"
    by simp
  from ids have e: "''p9'' \<notin> set (map item_id (items two_item_cart))"
    by simp
  with zero all_items have f: "updateQuantity ''p9'' 4 two_item_cart = two_item_cart"
    and g: "items (removeItem ''p9'' two_item_cart) = [chips_item, nuts_item]"
    by simp_all
  from a b c found d e f g show ?thesis
    by blast
qed

end
